theory Spec2Isabelle
  imports Main "HOL-Library.Word" "HOL-Library.Sublist"
begin

section \<open>The market-attribution backend: four HTTP handlers over two vendor clients\<close>

text \<open>
  The program is \<^verbatim>\<open>backend/app.py\<close>: a Flask application with four POST routes.
  Each handler reads the JSON body of the request, takes one field out of it, calls one
  method of a vendor client held in a module-level variable, and turns the result or the
  exception into a JSON response.

  The embedding is state passing. A handler takes the request and the module's global
  variables and returns three things: what the handler function itself produced (a
  response, or the exception that left the function), the global variables afterwards, and
  the list of calls it made on the vendor clients, in order.

  The vendor libraries (\<^verbatim>\<open>breeze_connect\<close>, \<^verbatim>\<open>google.generativeai\<close>) and Flask are
  not part of the program. A vendor method is a parameter of the model: any function from
  the arguments and the client object's state to an outcome and a new state of that object.
\<close>

subsection \<open>Python values\<close>

text \<open>
  The values that JSON decoding produces and JSON encoding consumes: \<^verbatim>\<open>None\<close>,
  \<^verbatim>\<open>bool\<close>, \<^verbatim>\<open>int\<close> (unbounded), \<^verbatim>\<open>float\<close> (the 64 bits of the double),
  \<^verbatim>\<open>str\<close>, \<^verbatim>\<open>list\<close> and \<^verbatim>\<open>dict\<close> with string keys (its items, in insertion
  order; a dict holds each key once, and a lookup reads the item list with \<open>map_of\<close>).
\<close>

datatype pyval =
    PyNone
  | PyBool bool
  | PyInt int
  | PyFloat "64 word"
  | PyStr string
  | PyList "pyval list"
  | PyDict "(string \<times> pyval) list"

text \<open>
  A raised object. \<open>Exception m\<close> is an instance of \<^verbatim>\<open>Exception\<close> or of one of its
  subclasses with \<^verbatim>\<open>str(e) == m\<close>; \<open>NonException m\<close> is an instance of
  \<^verbatim>\<open>BaseException\<close> outside \<^verbatim>\<open>Exception\<close> (\<^verbatim>\<open>KeyboardInterrupt\<close>,
  \<^verbatim>\<open>SystemExit\<close>, \<^verbatim>\<open>GeneratorExit\<close>), which \<^verbatim>\<open>except Exception\<close> lets through.
\<close>

datatype raised = Exception string | NonException string

type_synonym kwargs = "(string \<times> pyval) list"

text \<open>\<^verbatim>\<open>type(v).__name__\<close>, as it appears in the text of an \<^verbatim>\<open>AttributeError\<close>.\<close>

fun type_name :: "pyval \<Rightarrow> string" where
  "type_name PyNone = ''NoneType''"
| "type_name (PyBool _) = ''bool''"
| "type_name (PyInt _) = ''int''"
| "type_name (PyFloat _) = ''float''"
| "type_name (PyStr _) = ''str''"
| "type_name (PyList _) = ''list''"
| "type_name (PyDict _) = ''dict''"

text \<open>
  The \<^verbatim>\<open>AttributeError\<close> raised by \<^verbatim>\<open>v.attr\<close> when the type of \<open>v\<close> has no such
  attribute; its text is \<^verbatim>\<open>'T' object has no attribute 'attr'\<close>, \<open>T\<close> the type's name.
\<close>

definition AttributeError :: "pyval \<Rightarrow> string \<Rightarrow> raised" where
  "AttributeError v attr =
     Exception ([CHR 0x27] @ type_name v @ [CHR 0x27] @ '' object has no attribute ''
                  @ [CHR 0x27] @ attr @ [CHR 0x27])"

text \<open>
  \<^verbatim>\<open>data.get(key)\<close>. On a dict it is the value stored under the key, or \<^verbatim>\<open>None\<close>
  when the key is absent. No other JSON value has a \<^verbatim>\<open>get\<close> attribute, so the
  attribute lookup raises \<^verbatim>\<open>AttributeError\<close>.
\<close>

definition dict_get :: "(string \<times> pyval) list \<Rightarrow> string \<Rightarrow> pyval" where
  "dict_get items key = (case map_of items key of None \<Rightarrow> PyNone | Some v \<Rightarrow> v)"

fun py_get :: "pyval \<Rightarrow> string \<Rightarrow> raised + pyval" where
  "py_get (PyDict items) key = Inr (dict_get items key)"
| "py_get v key = Inl (AttributeError v ''get'')"

text \<open>Decimal digits of a natural number, and \<^verbatim>\<open>str\<close> of an \<^verbatim>\<open>int\<close>.\<close>

fun digits :: "nat \<Rightarrow> string" where
  "digits n =
     (if n < 10 then [''0123456789'' ! n]
      else digits (n div 10) @ [''0123456789'' ! (n mod 10)])"

definition str_int :: "int \<Rightarrow> string" where
  "str_int i = (if i < 0 then ''-'' @ digits (nat (- i)) else digits (nat i))"

text \<open>
  What a replacement field \<^verbatim>\<open>{v}\<close> of an f-string puts into the string:
  \<^verbatim>\<open>format(v, "")\<close>, which is \<^verbatim>\<open>str(v)\<close> for these types. For a float, a list and
  a dict \<^verbatim>\<open>str\<close> is the builtin \<^verbatim>\<open>repr\<close>, which is not part of the program and is
  taken as the parameter \<open>repr\<close>.
\<close>

fun py_format :: "(pyval \<Rightarrow> string) \<Rightarrow> pyval \<Rightarrow> string" where
  "py_format repr PyNone = ''None''"
| "py_format repr (PyBool b) = (if b then ''True'' else ''False'')"
| "py_format repr (PyInt i) = str_int i"
| "py_format repr (PyStr s) = s"
| "py_format repr v = repr v"

subsection \<open>Requests and responses\<close>

text \<open>
  Of the request a handler reads only \<^verbatim>\<open>request.json\<close>. Evaluating that property parses
  the body; it yields the decoded value or raises (Flask raises an HTTP error for a body
  that is not JSON).
\<close>

record request =
  json :: "raised + pyval"

text \<open>
  A response is its status code and the JSON value of its body. \<^verbatim>\<open>jsonify(v)\<close> builds
  the response with status 200 whose body is the serialisation of \<open>v\<close>; a view that
  returns the pair \<^verbatim>\<open>(response, code)\<close> has the code set on the response.
\<close>

record response =
  status_code :: nat
  json_body :: pyval

definition jsonify :: "pyval \<Rightarrow> response" where
  "jsonify v = \<lparr>status_code = 200, json_body = v\<rparr>"

definition with_status :: "response \<Rightarrow> nat \<Rightarrow> response" where
  "with_status r code = r\<lparr>status_code := code\<rparr>"

subsection \<open>Process-wide state and the vendor clients\<close>

text \<open>
  The module's global variables: the three configuration values read from the environment
  at import (\<^verbatim>\<open>os.environ.get\<close> gives \<^verbatim>\<open>None\<close> for an unset variable), and the two
  client objects, each standing for its internal state (for \<open>breeze\<close>, the session).
\<close>

record ('b, 'm) globals =
  BREEZE_API_KEY :: "string option"
  BREEZE_API_SECRET :: "string option"
  GEMINI_API_KEY :: "string option"
  model :: 'm
  breeze :: 'b

definition environ_value :: "string option \<Rightarrow> pyval" where
  "environ_value x = (case x of None \<Rightarrow> PyNone | Some s \<Rightarrow> PyStr s)"

text \<open>The object \<^verbatim>\<open>model.generate_content\<close> returns; the handler reads its \<^verbatim>\<open>text\<close>.\<close>

record generate_content_response =
  response_text :: string

text \<open>
  The vendor libraries. \<open>breeze_method name kw b\<close> is the call
  \<^verbatim>\<open>breeze.name(**kw)\<close> on a client in state \<open>b\<close>: it returns a value or raises, and
  leaves the client in a new state. \<open>generate_content prompt m\<close> is
  \<^verbatim>\<open>model.generate_content(prompt)\<close>. What a brokerage method returns is JSON data, the
  decoded answer of the provider, so \<^verbatim>\<open>jsonify\<close> of it yields a response.
\<close>

record ('b, 'm) sdk =
  breeze_method :: "string \<Rightarrow> kwargs \<Rightarrow> 'b \<Rightarrow> (raised + pyval) \<times> 'b"
  generate_content :: "string \<Rightarrow> 'm \<Rightarrow> (raised + generate_content_response) \<times> 'm"

text \<open>
  A call made on a vendor client: the global variable holding the client, the method, the
  positional arguments and the keyword arguments as written at the call site.
\<close>

datatype call = Call string string "pyval list" kwargs

type_synonym ('b, 'm) handled = "(raised + response) \<times> ('b, 'm) globals \<times> call list"

definition invoke_breeze ::
  "('b, 'm) sdk \<Rightarrow> string \<Rightarrow> kwargs \<Rightarrow> ('b, 'm) globals
     \<Rightarrow> (raised + pyval) \<times> ('b, 'm) globals \<times> call list" where
  "invoke_breeze lib name kw g =
     (case breeze_method lib name kw (breeze g) of
        (r, b') \<Rightarrow> (r, g\<lparr>breeze := b'\<rparr>, [Call ''breeze'' name [] kw]))"

definition invoke_model ::
  "('b, 'm) sdk \<Rightarrow> string \<Rightarrow> ('b, 'm) globals
     \<Rightarrow> (raised + generate_content_response) \<times> ('b, 'm) globals \<times> call list" where
  "invoke_model lib prompt g =
     (case generate_content lib prompt (model g) of
        (r, m') \<Rightarrow> (r, g\<lparr>model := m'\<rparr>, [Call ''model'' ''generate_content'' [PyStr prompt] []]))"

subsection \<open>The handlers\<close>

text \<open>
  In each handler the first two statements, reading \<^verbatim>\<open>request.json\<close> and calling
  \<^verbatim>\<open>data.get\<close>, stand before the \<^verbatim>\<open>try\<close>: an exception raised there leaves the
  handler. Inside the \<^verbatim>\<open>try\<close>, \<^verbatim>\<open>except Exception as e\<close> turns an \<open>Exception\<close> into
  the error response and lets anything else through.
\<close>

definition set_session :: "('b, 'm) sdk \<Rightarrow> request \<Rightarrow> ('b, 'm) globals \<Rightarrow> ('b, 'm) handled" where
  "set_session lib request g =
     (case json request of
        Inl e \<Rightarrow> (Inl e, g, [])
      | Inr data \<Rightarrow>
     (case py_get data ''api_session'' of
        Inl e \<Rightarrow> (Inl e, g, [])
      | Inr session_token \<Rightarrow>
     (case invoke_breeze lib ''generate_session''
             [(''api_secret'', environ_value (BREEZE_API_SECRET g)),
              (''session_token'', session_token)] g of
        (Inr _, g', cs) \<Rightarrow>
          (Inr (jsonify (PyDict [(''status'', PyStr ''success''),
                                 (''message'', PyStr ''Session generated'')])), g', cs)
      | (Inl (Exception m), g', cs) \<Rightarrow>
          (Inr (with_status (jsonify (PyDict [(''status'', PyStr ''error''),
                                              (''message'', PyStr m)])) 400), g', cs)
      | (Inl e, g', cs) \<Rightarrow> (Inl e, g', cs))))"

definition get_quotes :: "('b, 'm) sdk \<Rightarrow> request \<Rightarrow> ('b, 'm) globals \<Rightarrow> ('b, 'm) handled" where
  "get_quotes lib request g =
     (case json request of
        Inl e \<Rightarrow> (Inl e, g, [])
      | Inr data \<Rightarrow>
     (case py_get data ''stock_code'' of
        Inl e \<Rightarrow> (Inl e, g, [])
      | Inr stock_code \<Rightarrow>
     (case invoke_breeze lib ''get_quotes''
             [(''stock_code'', stock_code),
              (''exchange_code'', PyStr ''NSE''),
              (''expiry_date'', PyStr ''''),
              (''product_type'', PyStr ''cash''),
              (''right'', PyStr ''''),
              (''strike_price'', PyStr '''')] g of
        (Inr res, g', cs) \<Rightarrow> (Inr (jsonify res), g', cs)
      | (Inl (Exception m), g', cs) \<Rightarrow>
          (Inr (with_status (jsonify (PyDict [(''status'', PyStr ''error''),
                                              (''message'', PyStr m)])) 500), g', cs)
      | (Inl e, g', cs) \<Rightarrow> (Inl e, g', cs))))"

definition get_depth :: "('b, 'm) sdk \<Rightarrow> request \<Rightarrow> ('b, 'm) globals \<Rightarrow> ('b, 'm) handled" where
  "get_depth lib request g =
     (case json request of
        Inl e \<Rightarrow> (Inl e, g, [])
      | Inr data \<Rightarrow>
     (case py_get data ''stock_code'' of
        Inl e \<Rightarrow> (Inl e, g, [])
      | Inr stock_code \<Rightarrow>
     (case invoke_breeze lib ''get_market_depth''
             [(''stock_code'', stock_code),
              (''exchange_code'', PyStr ''NSE''),
              (''product_type'', PyStr ''cash'')] g of
        (Inr res, g', cs) \<Rightarrow> (Inr (jsonify res), g', cs)
      | (Inl (Exception m), g', cs) \<Rightarrow>
          (Inr (with_status (jsonify (PyDict [(''status'', PyStr ''error''),
                                              (''message'', PyStr m)])) 500), g', cs)
      | (Inl e, g', cs) \<Rightarrow> (Inl e, g', cs))))"

text \<open>
  In \<^verbatim>\<open>analyze_market\<close> the f-string, and with it \<^verbatim>\<open>data.get('log_date')\<close>, is
  evaluated before the \<^verbatim>\<open>try\<close>.
\<close>

definition analyze_market ::
  "(pyval \<Rightarrow> string) \<Rightarrow> ('b, 'm) sdk \<Rightarrow> request \<Rightarrow> ('b, 'm) globals \<Rightarrow> ('b, 'm) handled" where
  "analyze_market repr lib request g =
     (case json request of
        Inl e \<Rightarrow> (Inl e, g, [])
      | Inr data \<Rightarrow>
     (case py_get data ''log_date'' of
        Inl e \<Rightarrow> (Inl e, g, [])
      | Inr log_date \<Rightarrow>
     (let prompt = ''Analyze Nifty 50 for '' @ py_format repr log_date @ ''...'' in
      case invoke_model lib prompt g of
        (Inr response, g', cs) \<Rightarrow>
          (Inr (jsonify (PyDict [(''text'', PyStr (response_text response))])), g', cs)
      | (Inl (Exception m), g', cs) \<Rightarrow>
          (Inr (with_status (jsonify (PyDict [(''error'', PyStr m)])) 500), g', cs)
      | (Inl e, g', cs) \<Rightarrow> (Inl e, g', cs))))"

text \<open>The three components of what a handler invocation produced.\<close>

definition returned :: "('b, 'm) handled \<Rightarrow> raised + response" where
  "returned h = fst h"

definition globals_after :: "('b, 'm) handled \<Rightarrow> ('b, 'm) globals" where
  "globals_after h = fst (snd h)"

definition calls :: "('b, 'm) handled \<Rightarrow> call list" where
  "calls h = snd (snd h)"

subsection \<open>A stub of the vendor clients\<close>

text \<open>
  A concrete pair of clients on which the handlers can be run. The brokerage stub keeps
  the session token it was last given (\<open>None\<close> before the first successful
  \<^verbatim>\<open>generate_session\<close>); it refuses a token that is not a string, refuses market data
  without a session or without a stock code, and otherwise answers with a payload that
  names the method and the stock code. The state of the model stub is a number: at 0 the
  stub raises, as a client without a valid key; otherwise it answers with the prompt,
  prefixed.
\<close>

definition stub_breeze_method ::
  "string \<Rightarrow> kwargs \<Rightarrow> string option \<Rightarrow> (raised + pyval) \<times> string option" where
  "stub_breeze_method name kw session =
     (if name = ''generate_session'' then
        (case map_of kw ''session_token'' of
           Some (PyStr t) \<Rightarrow> (Inr PyNone, Some t)
         | _ \<Rightarrow> (Inl (Exception ''Could not authenticate credentials''), session))
      else
        (case session of
           None \<Rightarrow> (Inl (Exception ''Session key is expired''), session)
         | Some t \<Rightarrow>
        (case map_of kw ''stock_code'' of
           Some (PyStr c) \<Rightarrow>
             (Inr (PyDict [(''Success'', PyList [PyDict [(''stock_code'', PyStr c),
                                                         (''source'', PyStr name)]]),
                           (''Status'', PyInt 200),
                           (''Error'', PyNone)]), session)
         | _ \<Rightarrow> (Inl (Exception ''Stock-Code cannot be empty''), session))))"

definition stub_generate_content ::
  "string \<Rightarrow> nat \<Rightarrow> (raised + generate_content_response) \<times> nat" where
  "stub_generate_content prompt m =
     (if m = 0 then (Inl (Exception ''API key not valid''), m)
      else (Inr \<lparr>response_text = ''Re: '' @ prompt\<rparr>, m))"

definition stub_sdk :: "(string option, nat) sdk" where
  "stub_sdk = \<lparr>breeze_method = stub_breeze_method, generate_content = stub_generate_content\<rparr>"

definition stub_globals :: "string option \<Rightarrow> nat \<Rightarrow> (string option, nat) globals" where
  "stub_globals session m =
     \<lparr>BREEZE_API_KEY = Some ''key'', BREEZE_API_SECRET = Some ''secret'',
      GEMINI_API_KEY = None, model = m, breeze = session\<rparr>"

definition stub_repr :: "pyval \<Rightarrow> string" where
  "stub_repr v = ''<'' @ type_name v @ ''>''"

definition json_request :: "pyval \<Rightarrow> request" where
  "json_request v = \<lparr>json = Inr v\<rparr>"

text \<open>
  Two more brokerage stubs. The lenient one answers a market-data call that has no stock
  code with an error payload instead of raising, and never changes its session. The
  forgetful one answers every call and loses its session while doing so.
\<close>

definition lenient_breeze_method ::
  "string \<Rightarrow> kwargs \<Rightarrow> string option \<Rightarrow> (raised + pyval) \<times> string option" where
  "lenient_breeze_method name kw session =
     (case map_of kw ''stock_code'' of
        Some (PyStr c) \<Rightarrow>
          (Inr (PyDict [(''Success'', PyList [PyDict [(''stock_code'', PyStr c)]]),
                        (''Status'', PyInt 200),
                        (''Error'', PyNone)]), session)
      | _ \<Rightarrow>
          (Inr (PyDict [(''Success'', PyNone),
                        (''Status'', PyInt 500),
                        (''Error'', PyStr ''Stock-Code cannot be empty'')]), session))"

definition lenient_sdk :: "(string option, nat) sdk" where
  "lenient_sdk = \<lparr>breeze_method = lenient_breeze_method, generate_content = stub_generate_content\<rparr>"



section \<open>Properties of the handlers\<close>

lemmas handler_defs = set_session_def get_quotes_def get_depth_def analyze_market_def dict_get_def
  invoke_breeze_def invoke_model_def jsonify_def with_status_def returned_def globals_after_def calls_def

lemmas stub_defs = stub_sdk_def stub_breeze_method_def stub_generate_content_def stub_globals_def
  json_request_def stub_repr_def

text \<open>
  Claim C1. The body of the request is a JSON object whose \<^verbatim>\<open>stock_code\<close> is a string.
  Then the quotes handler makes exactly one call on the vendor clients,
  \<^verbatim>\<open>breeze.get_quotes\<close> with that stock code, \<^verbatim>\<open>exchange_code="NSE"\<close>,
  \<^verbatim>\<open>product_type="cash"\<close> and the empty string for \<^verbatim>\<open>expiry_date\<close>, \<^verbatim>\<open>right\<close>
  and \<^verbatim>\<open>strike_price\<close>; and whenever that call returns a value, the handler returns the
  response with status 200 whose JSON body is that value, unchanged.
\<close>

theorem quotes_pass_through:
  assumes "json request = Inr (PyDict items)"
    and "map_of items ''stock_code'' = Some (PyStr code)"
  shows "calls (get_quotes lib request g) =
           [Call ''breeze'' ''get_quotes'' []
              [(''stock_code'', PyStr code), (''exchange_code'', PyStr ''NSE''),
               (''expiry_date'', PyStr ''''), (''product_type'', PyStr ''cash''),
               (''right'', PyStr ''''), (''strike_price'', PyStr '''')]]
       \<and> (\<forall>res. fst (breeze_method lib ''get_quotes''
              [(''stock_code'', PyStr code), (''exchange_code'', PyStr ''NSE''),
               (''expiry_date'', PyStr ''''), (''product_type'', PyStr ''cash''),
               (''right'', PyStr ''''), (''strike_price'', PyStr '''')] (breeze g)) = Inr res
            \<longrightarrow> returned (get_quotes lib request g) = Inr \<lparr>status_code = 200, json_body = res\<rparr>)"
  using assms
  by (auto simp: handler_defs split: prod.splits sum.splits raised.splits)

theorem quotes_pass_through_witness:
  "calls (get_quotes stub_sdk (json_request (PyDict [(''stock_code'', PyStr ''INFY'')]))
            (stub_globals (Some ''tok'') 1)) =
     [Call ''breeze'' ''get_quotes'' []
        [(''stock_code'', PyStr ''INFY''), (''exchange_code'', PyStr ''NSE''),
         (''expiry_date'', PyStr ''''), (''product_type'', PyStr ''cash''),
         (''right'', PyStr ''''), (''strike_price'', PyStr '''')]]
   \<and> returned (get_quotes stub_sdk (json_request (PyDict [(''stock_code'', PyStr ''INFY'')]))
            (stub_globals (Some ''tok'') 1)) =
     Inr \<lparr>status_code = 200,
          json_body = PyDict [(''Success'', PyList [PyDict [(''stock_code'', PyStr ''INFY''),
                                                            (''source'', PyStr ''get_quotes'')]]),
                              (''Status'', PyInt 200), (''Error'', PyNone)]\<rparr>"
proof -
  have body: "json (json_request (PyDict [(''stock_code'', PyStr ''INFY'')]))
                = Inr (PyDict [(''stock_code'', PyStr ''INFY'')])"
    by (simp add: json_request_def)
  have field: "map_of [(''stock_code'', PyStr ''INFY'')] ''stock_code'' = Some (PyStr ''INFY'')"
    by simp
  show ?thesis
    using quotes_pass_through [OF body field, where lib = stub_sdk and g = "stub_globals (Some ''tok'') 1"]
    by (simp add: stub_defs)
qed

text \<open>
  Claim C2. The body of the request is a JSON object with an \<^verbatim>\<open>api_session\<close> field, of
  any value. Then the session handler makes exactly one call on the vendor clients,
  \<^verbatim>\<open>breeze.generate_session\<close> with the process-wide \<^verbatim>\<open>BREEZE_API_SECRET\<close> and that
  token. If the call returns, the handler returns status 200 with the body
  \<^verbatim>\<open>{"status": "success", "message": "Session generated"}\<close>; if it raises an
  \<^verbatim>\<open>Exception\<close> whose text is \<open>m\<close>, the handler returns status 400 with the body
  \<^verbatim>\<open>{"status": "error", "message": m}\<close>.
\<close>

theorem set_session_authenticates_once:
  assumes "json request = Inr (PyDict items)"
    and "map_of items ''api_session'' = Some token"
  shows "calls (set_session lib request g) =
           [Call ''breeze'' ''generate_session'' []
              [(''api_secret'', environ_value (BREEZE_API_SECRET g)),
               (''session_token'', token)]]
       \<and> (\<forall>v. fst (breeze_method lib ''generate_session''
                     [(''api_secret'', environ_value (BREEZE_API_SECRET g)),
                      (''session_token'', token)] (breeze g)) = Inr v
            \<longrightarrow> returned (set_session lib request g) =
                  Inr \<lparr>status_code = 200,
                       json_body = PyDict [(''status'', PyStr ''success''),
                                           (''message'', PyStr ''Session generated'')]\<rparr>)
       \<and> (\<forall>m. fst (breeze_method lib ''generate_session''
                     [(''api_secret'', environ_value (BREEZE_API_SECRET g)),
                      (''session_token'', token)] (breeze g)) = Inl (Exception m)
            \<longrightarrow> returned (set_session lib request g) =
                  Inr \<lparr>status_code = 400,
                       json_body = PyDict [(''status'', PyStr ''error''),
                                           (''message'', PyStr m)]\<rparr>)"
  using assms
  by (auto simp: handler_defs split: prod.splits sum.splits raised.splits)

theorem set_session_authenticates_once_witness:
  "calls (set_session stub_sdk (json_request (PyDict [(''api_session'', PyStr ''tok42'')]))
            (stub_globals None 1)) =
     [Call ''breeze'' ''generate_session'' []
        [(''api_secret'', PyStr ''secret''), (''session_token'', PyStr ''tok42'')]]
   \<and> returned (set_session stub_sdk (json_request (PyDict [(''api_session'', PyStr ''tok42'')]))
            (stub_globals None 1)) =
     Inr \<lparr>status_code = 200,
          json_body = PyDict [(''status'', PyStr ''success''),
                              (''message'', PyStr ''Session generated'')]\<rparr>
   \<and> returned (set_session stub_sdk (json_request (PyDict [(''api_session'', PyInt 7)]))
            (stub_globals None 1)) =
     Inr \<lparr>status_code = 400,
          json_body = PyDict [(''status'', PyStr ''error''),
                              (''message'', PyStr ''Could not authenticate credentials'')]\<rparr>"
proof -
  have body: "json (json_request (PyDict [(''api_session'', t)]))
                = Inr (PyDict [(''api_session'', t)])" for t
    by (simp add: json_request_def)
  have field: "map_of [(''api_session'', t)] ''api_session'' = Some t" for t :: pyval
    by simp
  show ?thesis
    using set_session_authenticates_once [OF body [of "PyStr ''tok42''"] field [of "PyStr ''tok42''"],
        where lib = stub_sdk and g = "stub_globals None 1"]
      set_session_authenticates_once [OF body [of "PyInt 7"] field [of "PyInt 7"],
        where lib = stub_sdk and g = "stub_globals None 1"]
    by (simp add: stub_defs environ_value_def)
qed

text \<open>
  Claim C3. The body of the request is a JSON object, of any content. If the call the
  quotes handler makes on the brokerage client raises an \<^verbatim>\<open>Exception\<close> whose text is \<open>m\<close>, the quotes handler
  returns status 500 with the body \<^verbatim>\<open>{"status": "error", "message": m}\<close>; and so does
  the depth handler for the call it makes.
\<close>

theorem market_data_exception_500:
  assumes "json request = Inr (PyDict items)"
  shows "(fst (breeze_method lib ''get_quotes''
                [(''stock_code'', dict_get items ''stock_code''), (''exchange_code'', PyStr ''NSE''),
                 (''expiry_date'', PyStr ''''), (''product_type'', PyStr ''cash''),
                 (''right'', PyStr ''''), (''strike_price'', PyStr '''')] (breeze g))
             = Inl (Exception m)
          \<longrightarrow> returned (get_quotes lib request g) =
                Inr \<lparr>status_code = 500,
                     json_body = PyDict [(''status'', PyStr ''error''), (''message'', PyStr m)]\<rparr>)
       \<and> (fst (breeze_method lib ''get_market_depth''
                [(''stock_code'', dict_get items ''stock_code''), (''exchange_code'', PyStr ''NSE''),
                 (''product_type'', PyStr ''cash'')] (breeze g))
             = Inl (Exception m)
          \<longrightarrow> returned (get_depth lib request g) =
                Inr \<lparr>status_code = 500,
                     json_body = PyDict [(''status'', PyStr ''error''), (''message'', PyStr m)]\<rparr>)"
  using assms
  by (auto simp: handler_defs split: prod.splits sum.splits raised.splits)

theorem market_data_exception_500_witness:
  "returned (get_quotes stub_sdk (json_request (PyDict [(''stock_code'', PyStr ''INFY'')]))
            (stub_globals None 1)) =
     Inr \<lparr>status_code = 500,
          json_body = PyDict [(''status'', PyStr ''error''),
                              (''message'', PyStr ''Session key is expired'')]\<rparr>
   \<and> returned (get_depth stub_sdk (json_request (PyDict [(''stock_code'', PyStr ''INFY'')]))
            (stub_globals None 1)) =
     Inr \<lparr>status_code = 500,
          json_body = PyDict [(''status'', PyStr ''error''),
                              (''message'', PyStr ''Session key is expired'')]\<rparr>"
proof -
  have body: "json (json_request (PyDict [(''stock_code'', PyStr ''INFY'')]))
                = Inr (PyDict [(''stock_code'', PyStr ''INFY'')])"
    by (simp add: json_request_def)
  show ?thesis
    using market_data_exception_500 [OF body, where lib = stub_sdk and g = "stub_globals None 1"
        and m = "''Session key is expired''"]
    by (simp add: stub_defs dict_get_def)
qed

text \<open>
  Claim C4. The body of the request is a JSON object whose \<^verbatim>\<open>stock_code\<close> is a string.
  Then the depth handler makes exactly one call on the vendor clients,
  \<^verbatim>\<open>breeze.get_market_depth\<close> with that stock code, \<^verbatim>\<open>exchange_code="NSE"\<close> and
  \<^verbatim>\<open>product_type="cash"\<close>; whenever that call returns a value the handler returns status
  200 with that value as the JSON body, unchanged; and given the same outcome of its own
  call as the quotes handler has of the quote call, it returns the same response and leaves
  the same global state as the quotes handler.
\<close>

theorem depth_pass_through:
  assumes "json request = Inr (PyDict items)"
    and "map_of items ''stock_code'' = Some (PyStr code)"
  shows "calls (get_depth lib request g) =
           [Call ''breeze'' ''get_market_depth'' []
              [(''stock_code'', PyStr code), (''exchange_code'', PyStr ''NSE''),
               (''product_type'', PyStr ''cash'')]]
       \<and> (\<forall>res. fst (breeze_method lib ''get_market_depth''
              [(''stock_code'', PyStr code), (''exchange_code'', PyStr ''NSE''),
               (''product_type'', PyStr ''cash'')] (breeze g)) = Inr res
            \<longrightarrow> returned (get_depth lib request g) = Inr \<lparr>status_code = 200, json_body = res\<rparr>)
       \<and> (breeze_method lib ''get_market_depth''
              [(''stock_code'', PyStr code), (''exchange_code'', PyStr ''NSE''),
               (''product_type'', PyStr ''cash'')] (breeze g)
           = breeze_method lib ''get_quotes''
              [(''stock_code'', PyStr code), (''exchange_code'', PyStr ''NSE''),
               (''expiry_date'', PyStr ''''), (''product_type'', PyStr ''cash''),
               (''right'', PyStr ''''), (''strike_price'', PyStr '''')] (breeze g)
            \<longrightarrow> returned (get_depth lib request g) = returned (get_quotes lib request g)
              \<and> globals_after (get_depth lib request g) = globals_after (get_quotes lib request g))"
  using assms
  by (auto simp: handler_defs split: prod.splits sum.splits raised.splits)

theorem depth_pass_through_witness:
  "calls (get_depth stub_sdk (json_request (PyDict [(''stock_code'', PyStr ''TCS'')]))
            (stub_globals (Some ''tok'') 1)) =
     [Call ''breeze'' ''get_market_depth'' []
        [(''stock_code'', PyStr ''TCS''), (''exchange_code'', PyStr ''NSE''),
         (''product_type'', PyStr ''cash'')]]
   \<and> returned (get_depth stub_sdk (json_request (PyDict [(''stock_code'', PyStr ''TCS'')]))
            (stub_globals (Some ''tok'') 1)) =
     Inr \<lparr>status_code = 200,
          json_body = PyDict [(''Success'', PyList [PyDict [(''stock_code'', PyStr ''TCS''),
                                                            (''source'', PyStr ''get_market_depth'')]]),
                              (''Status'', PyInt 200), (''Error'', PyNone)]\<rparr>
   \<and> returned (get_depth stub_sdk (json_request (PyDict [(''stock_code'', PyStr ''TCS'')]))
            (stub_globals None 1)) =
     returned (get_quotes stub_sdk (json_request (PyDict [(''stock_code'', PyStr ''TCS'')]))
            (stub_globals None 1))"
proof -
  have body: "json (json_request (PyDict [(''stock_code'', PyStr ''TCS'')]))
                = Inr (PyDict [(''stock_code'', PyStr ''TCS'')])"
    by (simp add: json_request_def)
  have field: "map_of [(''stock_code'', PyStr ''TCS'')] ''stock_code'' = Some (PyStr ''TCS'')"
    by simp
  show ?thesis
    using depth_pass_through [OF body field, where lib = stub_sdk and g = "stub_globals (Some ''tok'') 1"]
      depth_pass_through [OF body field, where lib = stub_sdk and g = "stub_globals None 1"]
    by (simp add: stub_defs)
qed

text \<open>
  Claim C5. The body of the request is a JSON object whose \<^verbatim>\<open>log_date\<close> is a string.
  Then the analysis handler makes exactly one call on the vendor clients,
  \<^verbatim>\<open>model.generate_content\<close> with one prompt string, and the \<^verbatim>\<open>log_date\<close> is a
  substring of that prompt. If the call returns a response, the handler returns status 200
  with the body \<^verbatim>\<open>{"text": t}\<close>, \<open>t\<close> the text of that response; if the call raises an
  \<^verbatim>\<open>Exception\<close> whose text is \<open>m\<close>, the handler returns status 500 with the body
  \<^verbatim>\<open>{"error": m}\<close>.
\<close>

theorem analyze_market_prompt_and_result:
  assumes "json request = Inr (PyDict items)"
    and "map_of items ''log_date'' = Some (PyStr log_date)"
  shows "calls (analyze_market repr lib request g) =
           [Call ''model'' ''generate_content''
              [PyStr (''Analyze Nifty 50 for '' @ log_date @ ''...'')] []]
       \<and> sublist log_date (''Analyze Nifty 50 for '' @ log_date @ ''...'')
       \<and> (\<forall>r. fst (generate_content lib (''Analyze Nifty 50 for '' @ log_date @ ''...'') (model g))
                 = Inr r
            \<longrightarrow> returned (analyze_market repr lib request g) =
                  Inr \<lparr>status_code = 200,
                       json_body = PyDict [(''text'', PyStr (response_text r))]\<rparr>)
       \<and> (\<forall>m. fst (generate_content lib (''Analyze Nifty 50 for '' @ log_date @ ''...'') (model g))
                 = Inl (Exception m)
            \<longrightarrow> returned (analyze_market repr lib request g) =
                  Inr \<lparr>status_code = 500, json_body = PyDict [(''error'', PyStr m)]\<rparr>)"
proof -
  have "sublist log_date (''Analyze Nifty 50 for '' @ log_date @ ''...'')"
    by (rule sublist_appendI)
  with assms show ?thesis
    by (auto simp: handler_defs Let_def split: prod.splits sum.splits raised.splits)
qed

theorem analyze_market_prompt_and_result_witness:
  "calls (analyze_market stub_repr stub_sdk
            (json_request (PyDict [(''log_date'', PyStr ''2024-01-01'')])) (stub_globals None 1)) =
     [Call ''model'' ''generate_content'' [PyStr ''Analyze Nifty 50 for 2024-01-01...''] []]
   \<and> sublist ''2024-01-01'' ''Analyze Nifty 50 for 2024-01-01...''
   \<and> returned (analyze_market stub_repr stub_sdk
            (json_request (PyDict [(''log_date'', PyStr ''2024-01-01'')])) (stub_globals None 1)) =
     Inr \<lparr>status_code = 200,
          json_body = PyDict [(''text'', PyStr ''Re: Analyze Nifty 50 for 2024-01-01...'')]\<rparr>
   \<and> returned (analyze_market stub_repr stub_sdk
            (json_request (PyDict [(''log_date'', PyStr ''2024-01-01'')])) (stub_globals None 0)) =
     Inr \<lparr>status_code = 500, json_body = PyDict [(''error'', PyStr ''API key not valid'')]\<rparr>"
proof -
  have body: "json (json_request (PyDict [(''log_date'', PyStr ''2024-01-01'')]))
                = Inr (PyDict [(''log_date'', PyStr ''2024-01-01'')])"
    by (simp add: json_request_def)
  have field: "map_of [(''log_date'', PyStr ''2024-01-01'')] ''log_date'' = Some (PyStr ''2024-01-01'')"
    by simp
  show ?thesis
    using analyze_market_prompt_and_result [OF body field, where repr = stub_repr and lib = stub_sdk and g = "stub_globals None 1"]
      analyze_market_prompt_and_result [OF body field, where repr = stub_repr and lib = stub_sdk and g = "stub_globals None 0"]
    by (simp add: stub_defs)
qed

text \<open>
  Claim C6, as amended. The claim as written fails: a request whose JSON body is not an
  object makes \<^verbatim>\<open>data.get\<close> raise before the \<^verbatim>\<open>try\<close>, and that exception leaves the
  handler (the counterexample below). For every request whose body is a JSON object, no
  \<^verbatim>\<open>Exception\<close> leaves any of the four handlers, and an \<^verbatim>\<open>Exception\<close> raised by the
  vendor call is turned into a JSON error payload with a fixed status code: 400 by the
  session handler and 500 by the quotes, depth and analysis handlers.
\<close>

theorem failures_caught_on_object_bodies:
  assumes "json request = Inr (PyDict items)"
  shows "(\<forall>m. returned (set_session lib request g) \<noteq> Inl (Exception m))
       \<and> (\<forall>m. returned (get_quotes lib request g) \<noteq> Inl (Exception m))
       \<and> (\<forall>m. returned (get_depth lib request g) \<noteq> Inl (Exception m))
       \<and> (\<forall>m. returned (analyze_market repr lib request g) \<noteq> Inl (Exception m))
       \<and> (\<forall>m. fst (breeze_method lib ''generate_session''
                     [(''api_secret'', environ_value (BREEZE_API_SECRET g)),
                      (''session_token'', dict_get items ''api_session'')] (breeze g))
                 = Inl (Exception m)
            \<longrightarrow> returned (set_session lib request g) =
                  Inr \<lparr>status_code = 400,
                       json_body = PyDict [(''status'', PyStr ''error''), (''message'', PyStr m)]\<rparr>)
       \<and> (\<forall>m. fst (breeze_method lib ''get_quotes''
                     [(''stock_code'', dict_get items ''stock_code''),
                      (''exchange_code'', PyStr ''NSE''), (''expiry_date'', PyStr ''''),
                      (''product_type'', PyStr ''cash''), (''right'', PyStr ''''),
                      (''strike_price'', PyStr '''')] (breeze g))
                 = Inl (Exception m)
            \<longrightarrow> returned (get_quotes lib request g) =
                  Inr \<lparr>status_code = 500,
                       json_body = PyDict [(''status'', PyStr ''error''), (''message'', PyStr m)]\<rparr>)
       \<and> (\<forall>m. fst (breeze_method lib ''get_market_depth''
                     [(''stock_code'', dict_get items ''stock_code''),
                      (''exchange_code'', PyStr ''NSE''),
                      (''product_type'', PyStr ''cash'')] (breeze g))
                 = Inl (Exception m)
            \<longrightarrow> returned (get_depth lib request g) =
                  Inr \<lparr>status_code = 500,
                       json_body = PyDict [(''status'', PyStr ''error''), (''message'', PyStr m)]\<rparr>)
       \<and> (\<forall>m. fst (generate_content lib
                     (''Analyze Nifty 50 for '' @ py_format repr (dict_get items ''log_date'') @ ''...'')
                     (model g))
                 = Inl (Exception m)
            \<longrightarrow> returned (analyze_market repr lib request g) =
                  Inr \<lparr>status_code = 500, json_body = PyDict [(''error'', PyStr m)]\<rparr>)"
proof -
  have s: "\<forall>m. returned (set_session lib request g) \<noteq> Inl (Exception m)"
    using assms by (auto simp: handler_defs split: prod.splits sum.splits raised.splits)
  have q: "\<forall>m. returned (get_quotes lib request g) \<noteq> Inl (Exception m)"
    using assms by (auto simp: handler_defs split: prod.splits sum.splits raised.splits)
  have d: "\<forall>m. returned (get_depth lib request g) \<noteq> Inl (Exception m)"
    using assms by (auto simp: handler_defs split: prod.splits sum.splits raised.splits)
  have a: "\<forall>m. returned (analyze_market repr lib request g) \<noteq> Inl (Exception m)"
    using assms by (auto simp: handler_defs Let_def split: prod.splits sum.splits raised.splits)
  have es: "\<forall>m. fst (breeze_method lib ''generate_session''
                     [(''api_secret'', environ_value (BREEZE_API_SECRET g)),
                      (''session_token'', dict_get items ''api_session'')] (breeze g))
                 = Inl (Exception m)
            \<longrightarrow> returned (set_session lib request g) =
                  Inr \<lparr>status_code = 400,
                       json_body = PyDict [(''status'', PyStr ''error''), (''message'', PyStr m)]\<rparr>"
    using assms by (auto simp: handler_defs split: prod.splits sum.splits raised.splits)
  have eq: "\<forall>m. fst (breeze_method lib ''get_quotes''
                     [(''stock_code'', dict_get items ''stock_code''),
                      (''exchange_code'', PyStr ''NSE''), (''expiry_date'', PyStr ''''),
                      (''product_type'', PyStr ''cash''), (''right'', PyStr ''''),
                      (''strike_price'', PyStr '''')] (breeze g))
                 = Inl (Exception m)
            \<longrightarrow> returned (get_quotes lib request g) =
                  Inr \<lparr>status_code = 500,
                       json_body = PyDict [(''status'', PyStr ''error''), (''message'', PyStr m)]\<rparr>"
    using assms by (auto simp: handler_defs split: prod.splits sum.splits raised.splits)
  have ed: "\<forall>m. fst (breeze_method lib ''get_market_depth''
                     [(''stock_code'', dict_get items ''stock_code''),
                      (''exchange_code'', PyStr ''NSE''),
                      (''product_type'', PyStr ''cash'')] (breeze g))
                 = Inl (Exception m)
            \<longrightarrow> returned (get_depth lib request g) =
                  Inr \<lparr>status_code = 500,
                       json_body = PyDict [(''status'', PyStr ''error''), (''message'', PyStr m)]\<rparr>"
    using assms by (auto simp: handler_defs split: prod.splits sum.splits raised.splits)
  have ea: "\<forall>m. fst (generate_content lib
                     (''Analyze Nifty 50 for '' @ py_format repr (dict_get items ''log_date'') @ ''...'')
                     (model g))
                 = Inl (Exception m)
            \<longrightarrow> returned (analyze_market repr lib request g) =
                  Inr \<lparr>status_code = 500, json_body = PyDict [(''error'', PyStr m)]\<rparr>"
    using assms by (auto simp: handler_defs Let_def split: prod.splits sum.splits raised.splits)
  from s q d a es eq ed ea show ?thesis
    by (intro conjI)
qed

theorem failures_caught_on_object_bodies_witness:
  "returned (set_session stub_sdk (json_request (PyDict [])) (stub_globals None 1)) =
     Inr \<lparr>status_code = 400,
          json_body = PyDict [(''status'', PyStr ''error''),
                              (''message'', PyStr ''Could not authenticate credentials'')]\<rparr>
   \<and> returned (get_quotes stub_sdk (json_request (PyDict [])) (stub_globals None 1)) =
     Inr \<lparr>status_code = 500,
          json_body = PyDict [(''status'', PyStr ''error''),
                              (''message'', PyStr ''Session key is expired'')]\<rparr>
   \<and> returned (get_depth stub_sdk (json_request (PyDict [])) (stub_globals None 1)) =
     Inr \<lparr>status_code = 500,
          json_body = PyDict [(''status'', PyStr ''error''),
                              (''message'', PyStr ''Session key is expired'')]\<rparr>
   \<and> returned (analyze_market stub_repr stub_sdk (json_request (PyDict [])) (stub_globals None 0)) =
     Inr \<lparr>status_code = 500, json_body = PyDict [(''error'', PyStr ''API key not valid'')]\<rparr>"
proof -
  have body: "json (json_request (PyDict [])) = Inr (PyDict [])"
    by (simp add: json_request_def)
  show ?thesis
    using failures_caught_on_object_bodies [OF body, where lib = stub_sdk
        and g = "stub_globals None 1" and repr = stub_repr]
      failures_caught_on_object_bodies [OF body, where lib = stub_sdk
        and g = "stub_globals None 0" and repr = stub_repr]
    by (simp add: stub_defs dict_get_def environ_value_def)
qed

text \<open>
  The counterexample to claim C6 as written: the session route receives the JSON body
  \<^verbatim>\<open>[]\<close>. The handler returns no response: the \<^verbatim>\<open>AttributeError\<close> of
  \<^verbatim>\<open>data.get\<close> on a list leaves it.
\<close>

theorem non_object_body_escapes_counterexample:
  "returned (set_session stub_sdk (json_request (PyList [])) (stub_globals None 1)) =
     Inl (AttributeError (PyList []) ''get'')"
  by (simp add: set_session_def returned_def json_request_def)

text \<open>
  Claim C7. The body of the request to the quotes route is a JSON object without a
  \<^verbatim>\<open>stock_code\<close> field. The handler does not check the field: it makes the call
  \<^verbatim>\<open>breeze.get_quotes\<close> all the same, with \<^verbatim>\<open>stock_code=None\<close>, and what it returns is
  decided by that call alone. If the call returns a payload, the handler returns it with
  status 200; if the call raises an \<^verbatim>\<open>Exception\<close> whose text is \<open>m\<close>, the handler
  returns the route's error response, status 500 with the body
  \<^verbatim>\<open>{"status": "error", "message": m}\<close>. No \<^verbatim>\<open>Exception\<close> leaves the handler.
\<close>

theorem quotes_missing_stock_code:
  assumes "json request = Inr (PyDict items)"
    and "map_of items ''stock_code'' = None"
  shows "calls (get_quotes lib request g) =
           [Call ''breeze'' ''get_quotes'' []
              [(''stock_code'', PyNone), (''exchange_code'', PyStr ''NSE''),
               (''expiry_date'', PyStr ''''), (''product_type'', PyStr ''cash''),
               (''right'', PyStr ''''), (''strike_price'', PyStr '''')]]
       \<and> returned (get_quotes lib request g) =
           (case fst (breeze_method lib ''get_quotes''
                        [(''stock_code'', PyNone), (''exchange_code'', PyStr ''NSE''),
                         (''expiry_date'', PyStr ''''), (''product_type'', PyStr ''cash''),
                         (''right'', PyStr ''''), (''strike_price'', PyStr '''')] (breeze g)) of
              Inr res \<Rightarrow> Inr \<lparr>status_code = 200, json_body = res\<rparr>
            | Inl (Exception m) \<Rightarrow>
                Inr \<lparr>status_code = 500,
                     json_body = PyDict [(''status'', PyStr ''error''), (''message'', PyStr m)]\<rparr>
            | Inl (NonException m) \<Rightarrow> Inl (NonException m))
       \<and> (\<forall>res. fst (breeze_method lib ''get_quotes''
              [(''stock_code'', PyNone), (''exchange_code'', PyStr ''NSE''),
               (''expiry_date'', PyStr ''''), (''product_type'', PyStr ''cash''),
               (''right'', PyStr ''''), (''strike_price'', PyStr '''')] (breeze g)) = Inr res
            \<longrightarrow> returned (get_quotes lib request g) = Inr \<lparr>status_code = 200, json_body = res\<rparr>)
       \<and> (\<forall>m. fst (breeze_method lib ''get_quotes''
              [(''stock_code'', PyNone), (''exchange_code'', PyStr ''NSE''),
               (''expiry_date'', PyStr ''''), (''product_type'', PyStr ''cash''),
               (''right'', PyStr ''''), (''strike_price'', PyStr '''')] (breeze g))
                 = Inl (Exception m)
            \<longrightarrow> returned (get_quotes lib request g) =
                  Inr \<lparr>status_code = 500,
                       json_body = PyDict [(''status'', PyStr ''error''), (''message'', PyStr m)]\<rparr>)
       \<and> (\<forall>m. returned (get_quotes lib request g) \<noteq> Inl (Exception m))"
  using assms
  by (auto simp: handler_defs split: prod.splits sum.splits raised.splits)

theorem quotes_missing_stock_code_witness:
  "calls (get_quotes stub_sdk (json_request (PyDict [])) (stub_globals (Some ''tok'') 1)) =
     [Call ''breeze'' ''get_quotes'' []
        [(''stock_code'', PyNone), (''exchange_code'', PyStr ''NSE''),
         (''expiry_date'', PyStr ''''), (''product_type'', PyStr ''cash''),
         (''right'', PyStr ''''), (''strike_price'', PyStr '''')]]
   \<and> returned (get_quotes stub_sdk (json_request (PyDict [])) (stub_globals (Some ''tok'') 1)) =
     Inr \<lparr>status_code = 500,
          json_body = PyDict [(''status'', PyStr ''error''),
                              (''message'', PyStr ''Stock-Code cannot be empty'')]\<rparr>
   \<and> returned (get_quotes lenient_sdk (json_request (PyDict [])) (stub_globals (Some ''tok'') 1)) =
     Inr \<lparr>status_code = 200,
          json_body = PyDict [(''Success'', PyNone), (''Status'', PyInt 500),
                              (''Error'', PyStr ''Stock-Code cannot be empty'')]\<rparr>"
proof -
  have body: "json (json_request (PyDict [])) = Inr (PyDict [])"
    by (simp add: json_request_def)
  have field: "map_of ([] :: (string \<times> pyval) list) ''stock_code'' = None"
    by simp
  show ?thesis
    using quotes_missing_stock_code [OF body field, where lib = stub_sdk
        and g = "stub_globals (Some ''tok'') 1"]
      quotes_missing_stock_code [OF body field, where lib = lenient_sdk
        and g = "stub_globals (Some ''tok'') 1"]
    by (simp add: stub_defs lenient_sdk_def lenient_breeze_method_def)
qed




text \<open>
  Claim C9. On a JSON-object body the depth handler calls \<^verbatim>\<open>breeze.get_market_depth\<close>
  with exactly three keyword arguments, \<^verbatim>\<open>stock_code\<close>, \<^verbatim>\<open>exchange_code="NSE"\<close> and
  \<^verbatim>\<open>product_type="cash"\<close>, while the quotes handler calls \<^verbatim>\<open>breeze.get_quotes\<close> with
  six, the same three and \<^verbatim>\<open>expiry_date\<close>, \<^verbatim>\<open>right\<close> and \<^verbatim>\<open>strike_price\<close> as empty
  strings. These are the arguments the vendor method receives: the response of each
  handler and the state it leaves the brokerage client in are those of the vendor method
  at exactly these arguments.
\<close>

theorem depth_call_three_keyword_arguments:
  assumes "json request = Inr (PyDict items)"
  shows "calls (get_depth lib request g) =
           [Call ''breeze'' ''get_market_depth'' []
              [(''stock_code'', dict_get items ''stock_code''),
               (''exchange_code'', PyStr ''NSE''),
               (''product_type'', PyStr ''cash'')]]
       \<and> calls (get_quotes lib request g) =
           [Call ''breeze'' ''get_quotes'' []
              [(''stock_code'', dict_get items ''stock_code''),
               (''exchange_code'', PyStr ''NSE''),
               (''expiry_date'', PyStr ''''),
               (''product_type'', PyStr ''cash''),
               (''right'', PyStr ''''),
               (''strike_price'', PyStr '''')]]
       \<and> returned (get_depth lib request g) =
           (case fst (breeze_method lib ''get_market_depth''
                        [(''stock_code'', dict_get items ''stock_code''),
                         (''exchange_code'', PyStr ''NSE''),
                         (''product_type'', PyStr ''cash'')] (breeze g)) of
              Inr res \<Rightarrow> Inr \<lparr>status_code = 200, json_body = res\<rparr>
            | Inl (Exception m) \<Rightarrow>
                Inr \<lparr>status_code = 500,
                     json_body = PyDict [(''status'', PyStr ''error''), (''message'', PyStr m)]\<rparr>
            | Inl (NonException m) \<Rightarrow> Inl (NonException m))
       \<and> globals_after (get_depth lib request g) =
           g\<lparr>breeze := snd (breeze_method lib ''get_market_depth''
                        [(''stock_code'', dict_get items ''stock_code''),
                         (''exchange_code'', PyStr ''NSE''),
                         (''product_type'', PyStr ''cash'')] (breeze g))\<rparr>
       \<and> returned (get_quotes lib request g) =
           (case fst (breeze_method lib ''get_quotes''
                        [(''stock_code'', dict_get items ''stock_code''),
                         (''exchange_code'', PyStr ''NSE''),
                         (''expiry_date'', PyStr ''''),
                         (''product_type'', PyStr ''cash''),
                         (''right'', PyStr ''''),
                         (''strike_price'', PyStr '''')] (breeze g)) of
              Inr res \<Rightarrow> Inr \<lparr>status_code = 200, json_body = res\<rparr>
            | Inl (Exception m) \<Rightarrow>
                Inr \<lparr>status_code = 500,
                     json_body = PyDict [(''status'', PyStr ''error''), (''message'', PyStr m)]\<rparr>
            | Inl (NonException m) \<Rightarrow> Inl (NonException m))
       \<and> globals_after (get_quotes lib request g) =
           g\<lparr>breeze := snd (breeze_method lib ''get_quotes''
                        [(''stock_code'', dict_get items ''stock_code''),
                         (''exchange_code'', PyStr ''NSE''),
                         (''expiry_date'', PyStr ''''),
                         (''product_type'', PyStr ''cash''),
                         (''right'', PyStr ''''),
                         (''strike_price'', PyStr '''')] (breeze g))\<rparr>"
proof -
  have cd: "calls (get_depth lib request g) =
           [Call ''breeze'' ''get_market_depth'' []
              [(''stock_code'', dict_get items ''stock_code''),
               (''exchange_code'', PyStr ''NSE''),
               (''product_type'', PyStr ''cash'')]]"
    using assms by (auto simp: handler_defs split: prod.splits sum.splits raised.splits)
  have cq: "calls (get_quotes lib request g) =
           [Call ''breeze'' ''get_quotes'' []
              [(''stock_code'', dict_get items ''stock_code''),
               (''exchange_code'', PyStr ''NSE''),
               (''expiry_date'', PyStr ''''),
               (''product_type'', PyStr ''cash''),
               (''right'', PyStr ''''),
               (''strike_price'', PyStr '''')]]"
    using assms by (auto simp: handler_defs split: prod.splits sum.splits raised.splits)
  have rd: "returned (get_depth lib request g) =
           (case fst (breeze_method lib ''get_market_depth''
                        [(''stock_code'', dict_get items ''stock_code''),
                         (''exchange_code'', PyStr ''NSE''),
                         (''product_type'', PyStr ''cash'')] (breeze g)) of
              Inr res \<Rightarrow> Inr \<lparr>status_code = 200, json_body = res\<rparr>
            | Inl (Exception m) \<Rightarrow>
                Inr \<lparr>status_code = 500,
                     json_body = PyDict [(''status'', PyStr ''error''), (''message'', PyStr m)]\<rparr>
            | Inl (NonException m) \<Rightarrow> Inl (NonException m))"
    using assms by (auto simp: handler_defs split: prod.splits sum.splits raised.splits)
  have gd: "globals_after (get_depth lib request g) =
           g\<lparr>breeze := snd (breeze_method lib ''get_market_depth''
                        [(''stock_code'', dict_get items ''stock_code''),
                         (''exchange_code'', PyStr ''NSE''),
                         (''product_type'', PyStr ''cash'')] (breeze g))\<rparr>"
    using assms by (auto simp: handler_defs split: prod.splits sum.splits raised.splits)
  have rq: "returned (get_quotes lib request g) =
           (case fst (breeze_method lib ''get_quotes''
                        [(''stock_code'', dict_get items ''stock_code''),
                         (''exchange_code'', PyStr ''NSE''),
                         (''expiry_date'', PyStr ''''),
                         (''product_type'', PyStr ''cash''),
                         (''right'', PyStr ''''),
                         (''strike_price'', PyStr '''')] (breeze g)) of
              Inr res \<Rightarrow> Inr \<lparr>status_code = 200, json_body = res\<rparr>
            | Inl (Exception m) \<Rightarrow>
                Inr \<lparr>status_code = 500,
                     json_body = PyDict [(''status'', PyStr ''error''), (''message'', PyStr m)]\<rparr>
            | Inl (NonException m) \<Rightarrow> Inl (NonException m))"
    using assms by (auto simp: handler_defs split: prod.splits sum.splits raised.splits)
  have gq: "globals_after (get_quotes lib request g) =
           g\<lparr>breeze := snd (breeze_method lib ''get_quotes''
                        [(''stock_code'', dict_get items ''stock_code''),
                         (''exchange_code'', PyStr ''NSE''),
                         (''expiry_date'', PyStr ''''),
                         (''product_type'', PyStr ''cash''),
                         (''right'', PyStr ''''),
                         (''strike_price'', PyStr '''')] (breeze g))\<rparr>"
    using assms by (auto simp: handler_defs split: prod.splits sum.splits raised.splits)
  from cd cq rd gd rq gq show ?thesis
    by (intro conjI)
qed

theorem depth_call_three_keyword_arguments_witness:
  "calls (get_depth stub_sdk (json_request (PyDict [(''stock_code'', PyStr ''SBIN'')]))
            (stub_globals (Some ''tok'') 1)) =
     [Call ''breeze'' ''get_market_depth'' []
        [(''stock_code'', PyStr ''SBIN''), (''exchange_code'', PyStr ''NSE''),
         (''product_type'', PyStr ''cash'')]]
   \<and> calls (get_quotes stub_sdk (json_request (PyDict [(''stock_code'', PyStr ''SBIN'')]))
            (stub_globals (Some ''tok'') 1)) =
     [Call ''breeze'' ''get_quotes'' []
        [(''stock_code'', PyStr ''SBIN''), (''exchange_code'', PyStr ''NSE''),
         (''expiry_date'', PyStr ''''), (''product_type'', PyStr ''cash''),
         (''right'', PyStr ''''), (''strike_price'', PyStr '''')]]
   \<and> returned (get_depth stub_sdk (json_request (PyDict [(''stock_code'', PyStr ''SBIN'')]))
            (stub_globals (Some ''tok'') 1)) =
     Inr \<lparr>status_code = 200,
          json_body = PyDict [(''Success'', PyList [PyDict [(''stock_code'', PyStr ''SBIN''),
                                                            (''source'', PyStr ''get_market_depth'')]]),
                              (''Status'', PyInt 200), (''Error'', PyNone)]\<rparr>
   \<and> returned (get_quotes stub_sdk (json_request (PyDict [(''stock_code'', PyStr ''SBIN'')]))
            (stub_globals (Some ''tok'') 1)) =
     Inr \<lparr>status_code = 200,
          json_body = PyDict [(''Success'', PyList [PyDict [(''stock_code'', PyStr ''SBIN''),
                                                            (''source'', PyStr ''get_quotes'')]]),
                              (''Status'', PyInt 200), (''Error'', PyNone)]\<rparr>"
proof -
  have body: "json (json_request (PyDict [(''stock_code'', PyStr ''SBIN'')]))
                = Inr (PyDict [(''stock_code'', PyStr ''SBIN'')])"
    by (simp add: json_request_def)
  show ?thesis
    using depth_call_three_keyword_arguments [OF body, where lib = stub_sdk
        and g = "stub_globals (Some ''tok'') 1"]
    by (simp add: dict_get_def stub_sdk_def stub_breeze_method_def stub_globals_def)
qed

text \<open>
  Claim C10. On a JSON-object body the prompt the analysis handler sends to the model is
  \<^verbatim>\<open>"Analyze Nifty 50 for "\<close>, then what the f-string puts in for
  \<^verbatim>\<open>data.get('log_date')\<close>, then \<^verbatim>\<open>"..."\<close>: the one call it makes is
  \<^verbatim>\<open>model.generate_content\<close> with that prompt, and its response and the state it leaves
  the model client in are those of \<^verbatim>\<open>generate_content\<close> at exactly that prompt. When the
  body has no \<^verbatim>\<open>log_date\<close> the handler does not fail before the call: the prompt is
  \<^verbatim>\<open>"Analyze Nifty 50 for None..."\<close> and the response is decided by
  \<^verbatim>\<open>generate_content\<close> at that prompt.
\<close>

theorem analyze_market_prompt_template:
  assumes "json request = Inr (PyDict items)"
  shows "calls (analyze_market repr lib request g) =
           [Call ''model'' ''generate_content''
              [PyStr (''Analyze Nifty 50 for '' @ py_format repr (dict_get items ''log_date'')
                        @ ''...'')] []]
       \<and> returned (analyze_market repr lib request g) =
           (case fst (generate_content lib
                        (''Analyze Nifty 50 for '' @ py_format repr (dict_get items ''log_date'')
                           @ ''...'') (model g)) of
              Inr r \<Rightarrow>
                Inr \<lparr>status_code = 200,
                     json_body = PyDict [(''text'', PyStr (response_text r))]\<rparr>
            | Inl (Exception m) \<Rightarrow>
                Inr \<lparr>status_code = 500, json_body = PyDict [(''error'', PyStr m)]\<rparr>
            | Inl (NonException m) \<Rightarrow> Inl (NonException m))
       \<and> globals_after (analyze_market repr lib request g) =
           g\<lparr>model := snd (generate_content lib
                        (''Analyze Nifty 50 for '' @ py_format repr (dict_get items ''log_date'')
                           @ ''...'') (model g))\<rparr>
       \<and> (map_of items ''log_date'' = None
            \<longrightarrow> calls (analyze_market repr lib request g) =
                  [Call ''model'' ''generate_content'' [PyStr ''Analyze Nifty 50 for None...''] []]
              \<and> returned (analyze_market repr lib request g) =
                  (case fst (generate_content lib ''Analyze Nifty 50 for None...'' (model g)) of
                     Inr r \<Rightarrow>
                       Inr \<lparr>status_code = 200,
                            json_body = PyDict [(''text'', PyStr (response_text r))]\<rparr>
                   | Inl (Exception m) \<Rightarrow>
                       Inr \<lparr>status_code = 500, json_body = PyDict [(''error'', PyStr m)]\<rparr>
                   | Inl (NonException m) \<Rightarrow> Inl (NonException m)))"
proof -
  have c: "calls (analyze_market repr lib request g) =
           [Call ''model'' ''generate_content''
              [PyStr (''Analyze Nifty 50 for '' @ py_format repr (dict_get items ''log_date'')
                        @ ''...'')] []]"
    using assms
    by (auto simp: handler_defs Let_def split: prod.splits sum.splits raised.splits)
  have r: "returned (analyze_market repr lib request g) =
           (case fst (generate_content lib
                        (''Analyze Nifty 50 for '' @ py_format repr (dict_get items ''log_date'')
                           @ ''...'') (model g)) of
              Inr r \<Rightarrow>
                Inr \<lparr>status_code = 200,
                     json_body = PyDict [(''text'', PyStr (response_text r))]\<rparr>
            | Inl (Exception m) \<Rightarrow>
                Inr \<lparr>status_code = 500, json_body = PyDict [(''error'', PyStr m)]\<rparr>
            | Inl (NonException m) \<Rightarrow> Inl (NonException m))"
    using assms
    by (auto simp: handler_defs Let_def split: prod.splits sum.splits raised.splits)
  have s: "globals_after (analyze_market repr lib request g) =
           g\<lparr>model := snd (generate_content lib
                        (''Analyze Nifty 50 for '' @ py_format repr (dict_get items ''log_date'')
                           @ ''...'') (model g))\<rparr>"
    using assms
    by (auto simp: handler_defs Let_def split: prod.splits sum.splits raised.splits)
  have absent: "''Analyze Nifty 50 for '' @ py_format repr (dict_get items ''log_date'') @ ''...''
                  = ''Analyze Nifty 50 for None...''"
    if "map_of items ''log_date'' = None"
    using that by (simp add: dict_get_def)
  from c r s absent show ?thesis
    by simp
qed

theorem analyze_market_prompt_template_witness:
  "calls (analyze_market stub_repr stub_sdk (json_request (PyDict [])) (stub_globals None 1)) =
     [Call ''model'' ''generate_content'' [PyStr ''Analyze Nifty 50 for None...''] []]
   \<and> returned (analyze_market stub_repr stub_sdk (json_request (PyDict []))
                (stub_globals None 1)) =
     Inr \<lparr>status_code = 200,
          json_body = PyDict [(''text'', PyStr ''Re: Analyze Nifty 50 for None...'')]\<rparr>
   \<and> calls (analyze_market stub_repr stub_sdk
              (json_request (PyDict [(''log_date'', PyInt (- 42))])) (stub_globals None 1)) =
     [Call ''model'' ''generate_content'' [PyStr ''Analyze Nifty 50 for -42...''] []]
   \<and> returned (analyze_market stub_repr stub_sdk
              (json_request (PyDict [(''log_date'', PyInt (- 42))])) (stub_globals None 1)) =
     Inr \<lparr>status_code = 200,
          json_body = PyDict [(''text'', PyStr ''Re: Analyze Nifty 50 for -42...'')]\<rparr>"
proof -
  have body: "json (json_request (PyDict items)) = Inr (PyDict items)" for items
    by (simp add: json_request_def)
  have num: "str_int (- 42) = ''-42''"
    by (simp add: str_int_def)
  show ?thesis
    using analyze_market_prompt_template [OF body [of "[]"], where lib = stub_sdk
        and g = "stub_globals None 1" and repr = stub_repr]
      analyze_market_prompt_template [OF body [of "[(''log_date'', PyInt (- 42))]"],
        where lib = stub_sdk and g = "stub_globals None 1" and repr = stub_repr]
    by (simp add: dict_get_def num stub_sdk_def stub_generate_content_def stub_globals_def)
qed

end
